theory Spec2Isabelle
  imports Main "HOL-Library.AList"
begin

section \<open>The ecsstatic vite plugin (src/package/vite.ts)\<close>

text \<open>
  A shallow embedding of the plugin returned by \<open>ecsstatic(options)\<close>: the hooks
  \<open>resolveId\<close>, \<open>load\<close> and \<open>transform\<close>, and the helpers \<open>processCss\<close>,
  \<open>processTemplateLiteral\<close>, \<open>findEcsstaticImports\<close>, \<open>evalWithEsbuild\<close>,
  \<open>inlineImportsUsingEsbuild\<close>, \<open>findCssTaggedTemplateLiterals\<close> and \<open>normalizePath\<close>.

  Libraries the file imports (the host's parser, acorn-walk, postcss, esbuild, the eval
  package, node's path module, magic-string) and the module \<open>./hash.js\<close> are not part
  of the file; they are fields of the record \<open>externals\<close>, and the general theorems hold
  for any value of it. A call that can throw returns \<open>error + 'a\<close>, \<open>Inl\<close> being the
  exception.

  Strings are \<open>char list\<close>; the model covers ASCII source text. The placeholder name
  (the balloon, U+1F388) is written as its four UTF-8 bytes.
\<close>

subsection \<open>String methods of JavaScript\<close>

abbreviation (input) LF :: char where "LF \<equiv> CHR 0x0A"
abbreviation (input) CR :: char where "CR \<equiv> CHR 0x0D"
abbreviation (input) TAB :: char where "TAB \<equiv> CHR 0x09"
abbreviation (input) SQ :: char where "SQ \<equiv> CHR 0x27"
abbreviation (input) DQ :: char where "DQ \<equiv> CHR 0x22"
abbreviation (input) BACKTICK :: char where "BACKTICK \<equiv> CHR 0x60"
abbreviation (input) BACKSLASH :: char where "BACKSLASH \<equiv> CHR 0x5C"

definition balloon :: string where
  "balloon = [CHR 0xF0, CHR 0x9F, CHR 0x8E, CHR 0x88]"

definition isWhiteSpace :: "char \<Rightarrow> bool" where
  "isWhiteSpace c = (c = CHR 0x20 \<or> c = TAB \<or> c = LF \<or> c = CHR 0x0B \<or> c = CHR 0x0C \<or> c = CR)"

definition trim :: "string \<Rightarrow> string" where
  "trim s = rev (dropWhile isWhiteSpace (rev (dropWhile isWhiteSpace s)))"

definition startsWith :: "string \<Rightarrow> string \<Rightarrow> bool" where
  "startsWith s p = (take (length p) s = p)"

definition endsWith :: "string \<Rightarrow> string \<Rightarrow> bool" where
  "endsWith s p = (length p \<le> length s \<and> drop (length s - length p) s = p)"

text \<open>\<open>s.includes(p)\<close>, also what \<open>/p/.test(s)\<close> is for a pattern of plain characters.\<close>

fun jsIncludes :: "string \<Rightarrow> string \<Rightarrow> bool" where
  "jsIncludes [] p = (p = [])"
| "jsIncludes (c # cs) p = (startsWith (c # cs) p \<or> jsIncludes cs p)"

text \<open>\<open>s.slice(a, b)\<close>: a negative index counts from the end, both are clamped.\<close>

definition jsSlice :: "string \<Rightarrow> int \<Rightarrow> int \<Rightarrow> string" where
  "jsSlice s a b =
     (let n = int (length s);
          from = (if a < 0 then max (n + a) 0 else min a n);
          to = (if b < 0 then max (n + b) 0 else min b n)
      in take (nat (to - from)) (drop (nat from) s))"

fun join :: "string \<Rightarrow> string list \<Rightarrow> string" where
  "join sep [] = []"
| "join sep [x] = x"
| "join sep (x # y # ys) = x @ sep @ join sep (y # ys)"

text \<open>\<open>s.split(/\r\n|\r|\n/g)\<close>: the pieces between line terminators, at least one.\<close>

fun splitLines :: "string \<Rightarrow> string list" where
  "splitLines [] = [[]]"
| "splitLines (c # cs) =
     (if c = CR then (case cs of [] \<Rightarrow> [[], []]
                      | d # ds \<Rightarrow> if d = LF then [] # splitLines ds else [] # splitLines cs)
      else if c = LF then [] # splitLines cs
      else (case splitLines cs of [] \<Rightarrow> [[c]] | l # ls \<Rightarrow> (c # l) # ls))"

definition toLowerCase :: "string \<Rightarrow> string" where
  "toLowerCase s =
     map (\<lambda>c. if (65::nat) \<le> of_char c \<and> of_char c \<le> (90::nat)
              then char_of (of_char c + (32::nat)) else c) s"

text \<open>\<open>id.split('?')[0]\<close>: the text before the first question mark.\<close>

definition beforeQuery :: "string \<Rightarrow> string" where
  "beforeQuery s = takeWhile (\<lambda>c. c \<noteq> CHR ''?'') s"

text \<open>
  \<open>/(c|m)*(j|t)s(x)*$/.test(s)\<close>: the pattern is not anchored at its start and
  \<open>(c|m)*\<close> may be empty, so it matches exactly when \<open>s\<close>, without its trailing
  \<open>x\<close>'s, ends in \<open>js\<close> or \<open>ts\<close>.
\<close>

definition testScriptExtension :: "string \<Rightarrow> bool" where
  "testScriptExtension s =
     (let t = rev (dropWhile (\<lambda>c. c = CHR ''x'') (rev s))
      in endsWith t ''js'' \<or> endsWith t ''ts'')"

subsection \<open>Errors and values\<close>

text \<open>A thrown JavaScript error: its name and its message.\<close>

datatype error = Error (err_name: string) (err_message: string)

text \<open>
  What an evaluation can yield: \<open>nodeEval\<close> returns \<open>any\<close>, and the cast
  \<open>as string\<close> of \<open>processTemplateLiteral\<close> is erased at run time. Of the non-strings
  the primitives are modelled.
\<close>

datatype js_value =
    JSString string
  | JSNumber int
  | JSBoolean bool
  | JSUndefined
  | JSNull

subsection \<open>The syntax tree, as far as the plugin reads it\<close>

datatype ImportSpecifierNode =
    ImportSpecifier (imported_name: string) (local_name: string)
  | ImportDefaultSpecifier (local_name: string)
  | ImportNamespaceSpecifier (local_name: string)

record Span =
  span_start :: nat
  span_end :: nat

datatype ProgramStatement =
    ImportDeclaration (source_value: string) (specifiers: "ImportSpecifierNode list")
      (decl_start: nat) (decl_end: nat)
  | OtherStatement

datatype TagNode = Identifier string | OtherExpression

text \<open>
  The second last ancestor of a tagged template, \<open>ancestors.at(-2)\<close>: a variable
  declarator (its \<open>id\<close> when that is an identifier, its \<open>init\<close> span when present), a
  property (its \<open>key\<close> when that is an identifier, its \<open>value\<close> span), or another node.
\<close>

datatype ParentNode =
    VariableDeclarator "string option" "Span option"
  | Property "string option" Span
  | OtherNode

record TaggedTemplateExpression =
  tt_start :: nat
  tt_end :: nat
  tag :: TagNode
  quasi_start :: nat
  quasi_end :: nat
  quasi_expressions :: nat
  prevNode :: ParentNode

record TaggedTemplateWithName = TaggedTemplateExpression +
  x_originalName :: "string option"

text \<open>
  A parsed file: the statements of \<open>ast.body\<close>, and every tagged template of the tree
  in the order in which acorn-walk's \<open>ancestor\<close> calls the visitor on them.
\<close>

record Program =
  body :: "ProgramStatement list"
  taggedTemplates :: "TaggedTemplateExpression list"

subsection \<open>magic-string, as an edit script\<close>

datatype ms_op = Append string | Update nat nat string

record MagicString =
  ms_original :: string
  ms_edits :: "ms_op list"

definition newMagicString :: "string \<Rightarrow> MagicString" where
  "newMagicString code = \<lparr>ms_original = code, ms_edits = []\<rparr>"

definition ms_append :: "MagicString \<Rightarrow> string \<Rightarrow> MagicString" where
  "ms_append m content = m\<lparr>ms_edits := ms_edits m @ [Append content]\<rparr>"

definition ms_update :: "MagicString \<Rightarrow> nat \<Rightarrow> nat \<Rightarrow> string \<Rightarrow> MagicString" where
  "ms_update m s e content = m\<lparr>ms_edits := ms_edits m @ [Update s e content]\<rparr>"

subsection \<open>External collaborators and options\<close>

datatype postcss_plugin = PostcssNested
datatype postcss_parser = PostcssScss

record externals =
  hash :: "string \<Rightarrow> string"
  parse :: "string \<Rightarrow> error + Program"
  postcss_process :: "postcss_plugin list \<Rightarrow> postcss_parser option \<Rightarrow> string \<Rightarrow> error + string"
  esbuild_transformSync :: "string \<Rightarrow> error + string"
  esbuild_build :: "string \<Rightarrow> string list \<Rightarrow> error + string"
  nodeEval :: "string \<Rightarrow> string \<Rightarrow> (string \<times> string) list \<Rightarrow> error + js_value"
  path_join :: "string \<Rightarrow> string \<Rightarrow> string"
  path_dirname :: "string \<Rightarrow> string"
  ms_toString :: "MagicString \<Rightarrow> string"
  ms_generateMap :: "MagicString \<Rightarrow> string"

record Options =
  opt_evaluateExpressions :: "bool option"
  opt_resolveImports :: "bool option"
  opt_resolvePackages :: "string list option"

text \<open>The destructuring defaults at the head of \<open>ecsstatic(options)\<close>.\<close>

definition evaluateExpressions :: "Options \<Rightarrow> bool" where
  "evaluateExpressions options =
     (case opt_evaluateExpressions options of None \<Rightarrow> True | Some b \<Rightarrow> b)"

definition resolvePackages :: "Options \<Rightarrow> string list" where
  "resolvePackages options =
     (case opt_resolvePackages options of None \<Rightarrow> [] | Some ps \<Rightarrow> ps)"

definition resolveImports :: "Options \<Rightarrow> bool" where
  "resolveImports options =
     (case opt_resolveImports options of
        None \<Rightarrow> evaluateExpressions options \<and> length (resolvePackages options) \<noteq> 0
      | Some b \<Rightarrow> b)"

definition useWhere :: bool where
  "useWhere = True"

subsection \<open>normalizePath, resolveId, load\<close>

definition normalizePath :: "string \<Rightarrow> string" where
  "normalizePath original = toLowerCase (map (\<lambda>c. if c = BACKSLASH then CHR ''/'' else c) original)"

record ResolvedConfig =
  root :: string

datatype resolve_result = ResolveUndefined | ResolveNull | Resolved string

text \<open>
  \<open>!importer\<close> holds for an absent importer and for the empty string. Reading
  \<open>viteConfigObj.root\<close> before \<open>configResolved\<close> has run raises a TypeError.
\<close>

definition resolveId ::
  "externals \<Rightarrow> ResolvedConfig option \<Rightarrow> (string \<rightharpoonup> string) \<Rightarrow> string \<Rightarrow> string option
     \<Rightarrow> error + resolve_result" where
  "resolveId ext viteConfigObj cssList ident importer =
     (case importer of
        None \<Rightarrow> Inr ResolveUndefined
      | Some imp \<Rightarrow>
          if imp = [] then Inr ResolveUndefined
          else if endsWith ident ''css'' then
            (let id1 = (if startsWith ident ''.''
                        then normalizePath (path_join ext (path_dirname ext imp) ident)
                        else ident)
             in case (if cssList id1 = None
                      then (case viteConfigObj of
                              None \<Rightarrow> Inl (Error ''TypeError''
                                ''Cannot read properties of undefined (reading 'root')'')
                            | Some cfg \<Rightarrow>
                                Inr (normalizePath (path_join ext (root cfg)
                                  (if startsWith id1 ''/'' then drop 1 id1 else id1))))
                      else Inr id1) of
                  Inl e \<Rightarrow> Inl e
                | Inr id2 \<Rightarrow> if cssList id2 \<noteq> None then Inr (Resolved id2) else Inr ResolveNull)
          else Inr ResolveNull)"

definition load :: "(string \<rightharpoonup> string) \<Rightarrow> string \<Rightarrow> string option" where
  "load cssList ident = cssList ident"

definition buildStart :: "(string \<rightharpoonup> string) \<Rightarrow> (string \<rightharpoonup> string)" where
  "buildStart cssList = Map.empty"

definition buildEnd :: "(string \<rightharpoonup> string) \<Rightarrow> (string \<rightharpoonup> string)" where
  "buildEnd cssList = Map.empty"

subsection \<open>processCss\<close>

definition isImportOrUse :: "string \<Rightarrow> bool" where
  "isImportOrUse line = (startsWith (trim line) ''@import'' \<or> startsWith (trim line) ''@use'')"

definition importsAndUses :: "string \<Rightarrow> string" where
  "importsAndUses templateContents =
     trim (join [LF] (filter isImportOrUse (splitLines templateContents)))"

definition codeWithoutImportsAndUses :: "string \<Rightarrow> string" where
  "codeWithoutImportsAndUses templateContents =
     join [LF] (filter (\<lambda>line. \<not> isImportOrUse line) (splitLines templateContents))"

definition className :: "externals \<Rightarrow> string \<Rightarrow> string \<Rightarrow> string" where
  "className ext templateContents originalName = originalName @ ''-'' @ hash ext templateContents"

definition unprocessedCss :: "externals \<Rightarrow> string \<Rightarrow> string \<Rightarrow> string" where
  "unprocessedCss ext templateContents originalName =
     importsAndUses templateContents @ [LF] @ ''.'' @ className ext templateContents originalName
       @ ''{'' @ codeWithoutImportsAndUses templateContents @ ''}''"

definition processCss :: "externals \<Rightarrow> string \<Rightarrow> string \<Rightarrow> bool \<Rightarrow> error + string \<times> string" where
  "processCss ext templateContents originalName isScss =
     (let plugins = (if \<not> isScss then [PostcssNested] else []);
          options = (if isScss then Some PostcssScss else None)
      in case postcss_process ext plugins options (unprocessedCss ext templateContents originalName) of
           Inl e \<Rightarrow> Inl e
         | Inr css \<Rightarrow> Inr (css, className ext templateContents originalName))"

text \<open>
  \<open>processCss\<close> on what the evaluation yielded: its first statement calls
  \<open>templateContents.split\<close>, which a non-string primitive does not have.
\<close>

definition processCssValue ::
  "externals \<Rightarrow> js_value \<Rightarrow> string \<Rightarrow> bool \<Rightarrow> error + string \<times> string" where
  "processCssValue ext v originalName isScss =
     (case v of
        JSString templateContents \<Rightarrow> processCss ext templateContents originalName isScss
      | JSNumber n \<Rightarrow> Inl (Error ''TypeError'' ''templateContents.split is not a function'')
      | JSBoolean b \<Rightarrow> Inl (Error ''TypeError'' ''templateContents.split is not a function'')
      | JSUndefined \<Rightarrow>
          Inl (Error ''TypeError'' ''Cannot read properties of undefined (reading 'split')'')
      | JSNull \<Rightarrow> Inl (Error ''TypeError'' ''Cannot read properties of null (reading 'split')''))"

subsection \<open>evalWithEsbuild, processTemplateLiteral, inlineImportsUsingEsbuild\<close>

definition generatedClassesDecl :: "string \<times> string \<Rightarrow> string" where
  "generatedClassesDecl kv = ''var '' @ fst kv @ '' = '' @ [SQ] @ snd kv @ [SQ] @ '';''"

definition generatedClassesDecls :: "(string \<times> string) list \<Rightarrow> string" where
  "generatedClassesDecls generatedClasses = join [LF] (map generatedClassesDecl generatedClasses)"

text \<open>The text handed to \<open>esbuild.transformSync\<close>.\<close>

definition syntheticProgram :: "string \<Rightarrow> string \<Rightarrow> (string \<times> string) list \<Rightarrow> string" where
  "syntheticProgram expression allVarDeclarations generatedClasses =
     allVarDeclarations @ [LF, LF, TAB, TAB] @ generatedClassesDecls generatedClasses
       @ [LF, LF, TAB, TAB] @ ''module.exports = ('' @ expression @ '');''"

definition evalWithEsbuild ::
  "externals \<Rightarrow> string \<Rightarrow> string \<Rightarrow> (string \<times> string) list \<Rightarrow> error + js_value" where
  "evalWithEsbuild ext expression allVarDeclarations generatedClasses =
     (case esbuild_transformSync ext (syntheticProgram expression allVarDeclarations generatedClasses) of
        Inl e \<Rightarrow> Inl e
      | Inr treeshaked \<Rightarrow> nodeEval ext treeshaked (hash ext expression) generatedClasses)"

text \<open>The catch block logs a fixed line to the console and throws the error it caught.\<close>

definition processTemplateLiteral ::
  "externals \<Rightarrow> string \<Rightarrow> string \<Rightarrow> (string \<times> string) list \<Rightarrow> error + js_value" where
  "processTemplateLiteral ext rawTemplate inlinedVars generatedClasses =
     (case evalWithEsbuild ext rawTemplate inlinedVars generatedClasses of
        Inl err \<Rightarrow> Inl err
      | Inr processedTemplate \<Rightarrow> Inr processedTemplate)"

definition inlineImportsUsingEsbuild :: "externals \<Rightarrow> string \<Rightarrow> string list \<Rightarrow> error + string" where
  "inlineImportsUsingEsbuild ext fileId noExternal = esbuild_build ext fileId noExternal"

subsection \<open>findEcsstaticImports\<close>

record EcsstaticImports =
  cssImportName :: "string option"
  scssImportName :: "string option"
  statements :: "Span list"

text \<open>
  \<open>node.specifiers.some(({ imported }) => ['css', 'scss'].includes(imported.name))\<close>:
  the callback runs on the specifiers from the left until one answers true. A default or
  namespace specifier has no \<open>imported\<close>, so reading \<open>imported.name\<close> raises a
  TypeError.
\<close>

fun someImportedCssOrScss :: "ImportSpecifierNode list \<Rightarrow> error + bool" where
  "someImportedCssOrScss [] = Inr False"
| "someImportedCssOrScss (ImportSpecifier imported loc # rest) =
     (if imported \<in> set [''css'', ''scss''] then Inr True else someImportedCssOrScss rest)"
| "someImportedCssOrScss (ImportDefaultSpecifier loc # rest) =
     Inl (Error ''TypeError'' ''Cannot read properties of undefined (reading 'name')'')"
| "someImportedCssOrScss (ImportNamespaceSpecifier loc # rest) =
     Inl (Error ''TypeError'' ''Cannot read properties of undefined (reading 'name')'')"

text \<open>The callback of \<open>node.specifiers.forEach\<close>.\<close>

definition recordSpecifier :: "ImportSpecifierNode \<Rightarrow> EcsstaticImports \<Rightarrow> EcsstaticImports" where
  "recordSpecifier specifier r =
     (let r1 = (case specifier of
                  ImportSpecifier imported loc \<Rightarrow>
                    if imported = ''css'' then r\<lparr>cssImportName := Some loc\<rparr> else r
                | _ \<Rightarrow> r)
      in (case specifier of
            ImportSpecifier imported loc \<Rightarrow>
              if imported = ''scss'' then r1\<lparr>scssImportName := Some loc\<rparr> else r1
          | _ \<Rightarrow> r1))"

fun forEachSpecifier :: "ImportSpecifierNode list \<Rightarrow> EcsstaticImports \<Rightarrow> EcsstaticImports" where
  "forEachSpecifier [] r = r"
| "forEachSpecifier (specifier # rest) r = forEachSpecifier rest (recordSpecifier specifier r)"

fun findEcsstaticImports_loop :: "ProgramStatement list \<Rightarrow> EcsstaticImports \<Rightarrow> error + EcsstaticImports" where
  "findEcsstaticImports_loop [] r = Inr r"
| "findEcsstaticImports_loop (OtherStatement # rest) r = findEcsstaticImports_loop rest r"
| "findEcsstaticImports_loop (ImportDeclaration src specs s e # rest) r =
     (if src = ''@acab/ecsstatic'' then
        (case someImportedCssOrScss specs of
           Inl err \<Rightarrow> Inl err
         | Inr found \<Rightarrow>
             findEcsstaticImports_loop rest
               (forEachSpecifier specs
                  (if found then r\<lparr>statements := statements r @ [\<lparr>span_start = s, span_end = e\<rparr>]\<rparr>
                   else r)))
      else findEcsstaticImports_loop rest r)"

definition findEcsstaticImports :: "Program \<Rightarrow> error + EcsstaticImports" where
  "findEcsstaticImports ast =
     findEcsstaticImports_loop (body ast)
       \<lparr>cssImportName = None, scssImportName = None, statements = []\<rparr>"

subsection \<open>findCssTaggedTemplateLiterals\<close>

definition tagMatches :: "string list \<Rightarrow> TaggedTemplateExpression \<Rightarrow> bool" where
  "tagMatches tagNames node =
     (case tag node of Identifier nm \<Rightarrow> nm \<in> set tagNames | OtherExpression \<Rightarrow> False)"

text \<open>The \<open>switch (prevNode?.type)\<close> that finds a name for the template.\<close>

definition originalNameOf :: "TaggedTemplateExpression \<Rightarrow> string option" where
  "originalNameOf node =
     (case prevNode node of
        VariableDeclarator ident init \<Rightarrow>
          (case ident of
             None \<Rightarrow> None
           | Some nm \<Rightarrow>
               (case init of
                  None \<Rightarrow> None
                | Some sp \<Rightarrow>
                    if span_start sp = tt_start node \<and> span_end sp = tt_end node
                    then Some nm else None))
      | Property key val \<Rightarrow>
          (if span_start val = tt_start node \<and> span_end val = tt_end node
           then key else None)
      | OtherNode \<Rightarrow> None)"

definition withName :: "TaggedTemplateExpression \<Rightarrow> TaggedTemplateWithName" where
  "withName node =
     \<lparr>tt_start = tt_start node, tt_end = tt_end node, tag = tag node,
      quasi_start = quasi_start node, quasi_end = quasi_end node,
      quasi_expressions = quasi_expressions node, prevNode = prevNode node,
      x_originalName = originalNameOf node\<rparr>"

definition findCssTaggedTemplateLiterals :: "Program \<Rightarrow> string list \<Rightarrow> TaggedTemplateWithName list" where
  "findCssTaggedTemplateLiterals ast tagNames =
     map withName (filter (tagMatches tagNames) (taggedTemplates ast))"

subsection \<open>transform\<close>

text \<open>\<open>[cssImportName, scssImportName].filter(Boolean)\<close>: undefined and the empty string go.\<close>

fun filterBoolean :: "string option list \<Rightarrow> string list" where
  "filterBoolean [] = []"
| "filterBoolean (None # rest) = filterBoolean rest"
| "filterBoolean (Some s # rest) = (if s = [] then filterBoolean rest else s # filterBoolean rest)"

text \<open>The variables the loop over \<open>cssTemplateLiterals\<close> changes.\<close>

record loop_state =
  inlinedVars :: string
  generatedClasses :: "(string \<times> string) list"
  magicCode :: MagicString
  cssList :: "string \<rightharpoonup> string"

definition selectorReference :: "string \<Rightarrow> string" where
  "selectorReference cls = (if useWhere then '':where(.'' @ cls @ '')'' else ''.'' @ cls)"

text \<open>\<open>node._originalName || balloon\<close>.\<close>

definition originalNameOr :: "string option \<Rightarrow> string" where
  "originalNameOr nm = (case nm of None \<Rightarrow> balloon | Some s \<Rightarrow> if s = [] then balloon else s)"

text \<open>
  \<open>templateContents\<close>: the evaluated template when \<open>evaluateExpressions\<close> is on and
  the template has expressions, else \<open>rawTemplate.slice(1, rawTemplate.length - 2)\<close>.
\<close>

definition templateContentsOf ::
  "externals \<Rightarrow> bool \<Rightarrow> nat \<Rightarrow> string \<Rightarrow> string \<Rightarrow> (string \<times> string) list \<Rightarrow> error + js_value" where
  "templateContentsOf ext evalExprs nexpressions rawTemplate inlined classes =
     (if evalExprs \<and> nexpressions \<noteq> 0
      then processTemplateLiteral ext rawTemplate inlined classes
      else Inr (JSString (jsSlice rawTemplate 1 (int (length rawTemplate) - 2))))"

text \<open>
  The lazy population of \<open>inlinedVars\<close>: esbuild bundles the file the first time a
  template with expressions is met while \<open>resolveImports\<close> is on and \<open>inlinedVars\<close>
  is still the empty string.
\<close>

definition populateInlinedVars ::
  "externals \<Rightarrow> Options \<Rightarrow> string \<Rightarrow> TaggedTemplateWithName \<Rightarrow> loop_state \<Rightarrow> error + string" where
  "populateInlinedVars ext options ident node st =
     (if quasi_expressions node \<noteq> 0 \<and> resolveImports options \<and> inlinedVars st = []
      then inlineImportsUsingEsbuild ext ident (resolvePackages options)
      else Inr (inlinedVars st))"

text \<open>\<open>code.slice(quasi.start, quasi.end).trim()\<close>.\<close>

definition rawTemplateOf :: "string \<Rightarrow> TaggedTemplateWithName \<Rightarrow> string" where
  "rawTemplateOf code node = trim (jsSlice code (int (quasi_start node)) (int (quasi_end node)))"

text \<open>
  One turn of the loop \<open>for (const node of cssTemplateLiterals)\<close>. An exception leaves
  the turn before \<open>cssList.set\<close>, so the registry is then as the turn found it.
\<close>

definition processNode ::
  "externals \<Rightarrow> Options \<Rightarrow> string \<Rightarrow> string \<Rightarrow> string option \<Rightarrow> TaggedTemplateWithName \<Rightarrow> loop_state
     \<Rightarrow> error + loop_state" where
  "processNode ext options code ident scssName node st =
     (let originalName = originalNameOr (x_originalName node);
          isScss = (case tag node of Identifier nm \<Rightarrow> Some nm = scssName | OtherExpression \<Rightarrow> False)
      in case populateInlinedVars ext options ident node st of
           Inl e \<Rightarrow> Inl e
         | Inr inlined \<Rightarrow>
             (case templateContentsOf ext (evaluateExpressions options) (quasi_expressions node)
                     (rawTemplateOf code node) inlined (generatedClasses st) of
                Inl e \<Rightarrow> Inl e
              | Inr templateContents \<Rightarrow>
                  (case processCssValue ext templateContents originalName isScss of
                     Inl e \<Rightarrow> Inl e
                   | Inr (css, cls) \<Rightarrow>
                       (let classes = (if originalName \<noteq> balloon
                                       then AList.update originalName (selectorReference cls)
                                              (generatedClasses st)
                                       else generatedClasses st);
                            extension = (if isScss then ''scss'' else ''css'');
                            cssFilename = toLowerCase (cls @ ''.acab.'' @ extension);
                            mc1 = ms_append (magicCode st)
                                    (''import '' @ [DQ] @ ''./'' @ cssFilename @ [DQ] @ '';'' @ [LF]);
                            fullCssPath = normalizePath
                                            (path_join ext (path_dirname ext ident) cssFilename)
                        in Inr \<lparr>inlinedVars = inlined,
                                generatedClasses = classes,
                                magicCode = ms_update mc1 (tt_start node) (tt_end node)
                                              ([DQ] @ cls @ [DQ]),
                                cssList = (cssList st)(fullCssPath \<mapsto> css)\<rparr>))))"

fun transform_loop ::
  "externals \<Rightarrow> Options \<Rightarrow> string \<Rightarrow> string \<Rightarrow> string option \<Rightarrow> TaggedTemplateWithName list \<Rightarrow> loop_state
     \<Rightarrow> error option \<times> loop_state" where
  "transform_loop ext options code ident scssName [] st = (None, st)"
| "transform_loop ext options code ident scssName (node # rest) st =
     (case processNode ext options code ident scssName node st of
        Inl e \<Rightarrow> (Some e, st)
      | Inr st' \<Rightarrow> transform_loop ext options code ident scssName rest st')"

text \<open>\<open>ecsstaticImportStatements.forEach(({ start, end }) => magicCode.update(start, end, ''))\<close>.\<close>

fun removeImports :: "Span list \<Rightarrow> MagicString \<Rightarrow> MagicString" where
  "removeImports [] m = m"
| "removeImports (sp # rest) m = removeImports rest (ms_update m (span_start sp) (span_end sp) [])"

text \<open>
  The variables as \<open>transform\<close> declares them before the loop: a new MagicString of the
  code, no inlined variables, an empty map of generated classes; \<open>cssList\<close> is the
  plugin's registry.
\<close>

definition initialState :: "string \<Rightarrow> (string \<rightharpoonup> string) \<Rightarrow> loop_state" where
  "initialState code registry =
     \<lparr>inlinedVars = [], generatedClasses = [], magicCode = newMagicString code, cssList = registry\<rparr>"

text \<open>What \<open>transform\<close> returns: nothing (the host keeps the file), or the new code and map.\<close>

datatype transform_result = Unchanged | Rewritten string string

definition transform ::
  "externals \<Rightarrow> Options \<Rightarrow> (string \<rightharpoonup> string) \<Rightarrow> string \<Rightarrow> string
     \<Rightarrow> (error + transform_result) \<times> (string \<rightharpoonup> string)" where
  "transform ext options registry code ident0 =
     (let ident = beforeQuery ident0 in
      if jsIncludes ident ''node_modules'' then (Inr Unchanged, registry)
      else if \<not> testScriptExtension ident then (Inr Unchanged, registry)
      else
        (case parse ext code of
           Inl e \<Rightarrow> (Inl e, registry)
         | Inr parsedAst \<Rightarrow>
             (case findEcsstaticImports parsedAst of
                Inl e \<Rightarrow> (Inl e, registry)
              | Inr imports \<Rightarrow>
                  if length (statements imports) = 0 then (Inr Unchanged, registry)
                  else
                    (let ecsstaticImportNames =
                           filterBoolean [cssImportName imports, scssImportName imports];
                         cssTemplateLiterals =
                           findCssTaggedTemplateLiterals parsedAst ecsstaticImportNames
                     in if length cssTemplateLiterals = 0 then (Inr Unchanged, registry)
                        else
                          (case transform_loop ext options code ident (scssImportName imports)
                                  cssTemplateLiterals (initialState code registry) of
                             (Some e, st) \<Rightarrow> (Inl e, cssList st)
                           | (None, st) \<Rightarrow>
                               (let mc = removeImports (statements imports) (magicCode st)
                                in (Inr (Rewritten (ms_toString ext mc) (ms_generateMap ext mc)),
                                    cssList st)))))))"

subsection \<open>A sample file and sample collaborators\<close>

text \<open>
  The file
  \<^verbatim>\<open>import { css } from '@acab/ecsstatic';\<close>,
  \<^verbatim>\<open>const box = css`color:red;`;\<close>,
  \<^verbatim>\<open>const outer = css`${box} span{color:blue;}`;\<close>
  (three lines), its syntax tree, and stand-ins for the collaborators: they are used
  where a statement is instantiated at a concrete input.
\<close>

definition sampleCode :: string where
  "sampleCode =
     ''import { css } from '' @ [SQ] @ ''@acab/ecsstatic'' @ [SQ] @ '';'' @ [LF]
     @ ''const box = css'' @ [BACKTICK] @ ''color:red;'' @ [BACKTICK] @ '';'' @ [LF]
     @ ''const outer = css'' @ [BACKTICK] @ ''${box} span{color:blue;}'' @ [BACKTICK] @ '';'' @ [LF]"

definition sampleBox :: TaggedTemplateExpression where
  "sampleBox =
     \<lparr>tt_start = 51, tt_end = 66, tag = Identifier ''css'', quasi_start = 54, quasi_end = 66,
      quasi_expressions = 0,
      prevNode = VariableDeclarator (Some ''box'') (Some \<lparr>span_start = 51, span_end = 66\<rparr>)\<rparr>"

definition sampleOuter :: TaggedTemplateExpression where
  "sampleOuter =
     \<lparr>tt_start = 82, tt_end = 111, tag = Identifier ''css'', quasi_start = 85, quasi_end = 111,
      quasi_expressions = 1,
      prevNode = VariableDeclarator (Some ''outer'') (Some \<lparr>span_start = 82, span_end = 111\<rparr>)\<rparr>"

definition sampleProgram :: Program where
  "sampleProgram =
     \<lparr>body = [ImportDeclaration ''@acab/ecsstatic'' [ImportSpecifier ''css'' ''css''] 0 38,
              OtherStatement, OtherStatement],
      taggedTemplates = [sampleBox, sampleOuter]\<rparr>"

definition sampleExternals :: externals where
  "sampleExternals =
     \<lparr>hash = (\<lambda>s. ''h'' @ filter (\<lambda>c. c = CHR ''r'' \<or> c = CHR ''b'') s),
      parse = (\<lambda>code. Inr sampleProgram),
      postcss_process = (\<lambda>plugins parser css. Inr css),
      esbuild_transformSync = (\<lambda>code. Inr code),
      esbuild_build = (\<lambda>fileId noExternal. Inr []),
      nodeEval = (\<lambda>code filename scope.
         case scope of
           [] \<Rightarrow> Inl (Error ''ReferenceError'' ''box is not defined'')
         | kv # rest \<Rightarrow> Inr (JSString (snd kv @ '' span{color:blue;}''))),
      path_join = (\<lambda>a b. a @ ''/'' @ b),
      path_dirname = (\<lambda>p. rev (drop 1 (dropWhile (\<lambda>c. c \<noteq> CHR ''/'') (rev p)))),
      ms_toString = (\<lambda>m. ms_original m),
      ms_generateMap = (\<lambda>m. [])\<rparr>"

definition sampleOptions :: Options where
  "sampleOptions =
     \<lparr>opt_evaluateExpressions = None, opt_resolveImports = None, opt_resolvePackages = None\<rparr>"

text \<open>The loop's variables after the first site of the sample file.\<close>

definition sampleAfterBox :: "(string \<rightharpoonup> string) \<Rightarrow> loop_state" where
  "sampleAfterBox registry =
     \<lparr>inlinedVars = [],
      generatedClasses = [(''box'', '':where(.box-hrr)'')],
      magicCode =
        \<lparr>ms_original = sampleCode,
         ms_edits = [Append (''import '' @ [DQ] @ ''./box-hrr.acab.css'' @ [DQ] @ '';'' @ [LF]),
                     Update 51 66 ([DQ] @ ''box-hrr'' @ [DQ])]\<rparr>,
      cssList = registry(''/app/src/box-hrr.acab.css'' \<mapsto> [LF] @ ''.box-hrr{color:red}'')\<rparr>"









subsection \<open>The claims' own words\<close>

text \<open>
  For the claim about aliases: the local names under which a role (\<open>css\<close> or
  \<open>scss\<close>) is imported from the package by named specifiers, in source order; the
  last of them; and the spans of the package's import statements that have a \<open>css\<close> or
  \<open>scss\<close> specifier.
\<close>

definition specifierAliases :: "string \<Rightarrow> ImportSpecifierNode list \<Rightarrow> string list" where
  "specifierAliases role specs =
     concat (map (\<lambda>sp. case sp of
                          ImportSpecifier imported loc \<Rightarrow> if imported = role then [loc] else []
                        | ImportDefaultSpecifier loc \<Rightarrow> []
                        | ImportNamespaceSpecifier loc \<Rightarrow> []) specs)"

definition aliasesOf :: "string \<Rightarrow> ProgramStatement list \<Rightarrow> string list" where
  "aliasesOf role stmts =
     concat (map (\<lambda>st. case st of
                          ImportDeclaration src specs s e \<Rightarrow>
                            if src = ''@acab/ecsstatic'' then specifierAliases role specs else []
                        | OtherStatement \<Rightarrow> []) stmts)"

definition lastAlias :: "string \<Rightarrow> ProgramStatement list \<Rightarrow> string option" where
  "lastAlias role stmts =
     (if aliasesOf role stmts = [] then None else Some (last (aliasesOf role stmts)))"

definition styleImportSpans :: "ProgramStatement list \<Rightarrow> Span list" where
  "styleImportSpans stmts =
     concat (map (\<lambda>st. case st of
                          ImportDeclaration src specs s e \<Rightarrow>
                            if src = ''@acab/ecsstatic''
                               \<and> (specifierAliases ''css'' specs \<noteq> [] \<or> specifierAliases ''scss'' specs \<noteq> [])
                            then [\<lparr>span_start = s, span_end = e\<rparr>] else []
                        | OtherStatement \<Rightarrow> []) stmts)"

text \<open>For the claim about visibility: the declared names of the named sites of a list.\<close>

definition declaredNames :: "TaggedTemplateWithName list \<Rightarrow> string set" where
  "declaredNames sites =
     set (filter (\<lambda>nm. nm \<noteq> balloon) (map (\<lambda>site. originalNameOr (x_originalName site)) sites))"

section \<open>Properties\<close>

subsection \<open>C10: resolveId without an importer\<close>

text \<open>
  C10. For every resolution request that has no importer, the resolution hook declines:
  it returns undefined, whatever the registry holds and whatever id is asked for, also
  an id that is a key of the registry. (The first statement of the hook is
  \<open>if (!importer) return\<close>.)
\<close>

theorem C10_resolveId_no_importer_declines:
  "resolveId ext viteConfigObj registry ident None = Inr ResolveUndefined"
  by (simp add: resolveId_def)

theorem C10_resolveId_no_importer_witness:
  "\<forall>ext. resolveId ext (Some \<lparr>root = ''/app''\<rparr>)
          [''/app/src/box-h.acab.css'' \<mapsto> ''.box-h{color:red}''] ''/app/src/box-h.acab.css'' None
        = Inr ResolveUndefined
      \<and> resolveId ext (Some \<lparr>root = ''/app''\<rparr>)
          [''/app/src/box-h.acab.css'' \<mapsto> ''.box-h{color:red}''] ''/app/src/box-h.acab.css''
          (Some ''/app/src/main.ts'')
        = Inr (Resolved ''/app/src/box-h.acab.css'')"
  using C10_resolveId_no_importer_declines
    [of _ "Some \<lparr>root = ''/app''\<rparr>"
        "[''/app/src/box-h.acab.css'' \<mapsto> ''.box-h{color:red}'']" "''/app/src/box-h.acab.css''"]
  by (simp add: resolveId_def endsWith_def startsWith_def)

subsection \<open>C2: a template without interpolations\<close>

lemma nat_int_pred: "nat (int n - 1) = n - 1"
  by simp

lemma passthrough_drops_last_character:
  "templateContentsOf ext evalExprs 0 (BACKTICK # text @ [BACKTICK]) inlined classes
     = Inr (JSString (butlast text))"
  by (simp add: templateContentsOf_def jsSlice_def butlast_conv_take nat_int_pred)

lemma passthrough_when_disabled:
  "templateContentsOf ext False n (BACKTICK # text @ [BACKTICK]) inlined classes
     = Inr (JSString (butlast text))"
  by (simp add: templateContentsOf_def jsSlice_def butlast_conv_take nat_int_pred)

text \<open>
  C2. A template with zero interpolations skips evaluation, and its resolved body should
  be its literal text with exactly the two backticks removed. The code takes
  \<open>rawTemplate.slice(1, rawTemplate.length - 2)\<close>, which removes the opening backtick,
  the closing backtick and the character before it: for the template
  \<open>`color:red`\<close> the resolved body is \<open>color:re\<close>.
\<close>

theorem C2_passthrough_loses_last_character:
  "templateContentsOf ext evalExprs 0 (BACKTICK # ''color:red'' @ [BACKTICK]) inlined classes
     = Inr (JSString ''color:re'')"
  by (simp add: templateContentsOf_def jsSlice_def)

subsection \<open>C4: directives before the rule\<close>

lemma splitLines_not_Nil: "splitLines s \<noteq> []"
proof (cases s)
  case Nil
  then show ?thesis by simp
next
  case (Cons c cs)
  then show ?thesis
    by (cases cs; cases "splitLines cs") (simp_all del: splitLines.simps add: splitLines.simps(2)[of c])
qed

lemma splitLines_plain: "CR \<notin> set x \<Longrightarrow> LF \<notin> set x \<Longrightarrow> splitLines x = [x]"
  by (induction x) auto

lemma splitLines_plain_LF:
  "CR \<notin> set x \<Longrightarrow> LF \<notin> set x \<Longrightarrow> splitLines (x @ LF # r) = x # splitLines r"
  by (induction x) auto

lemma splitLines_join:
  "ls \<noteq> [] \<Longrightarrow> (\<And>l. l \<in> set ls \<Longrightarrow> CR \<notin> set l \<and> LF \<notin> set l) \<Longrightarrow> splitLines (join [LF] ls) = ls"
proof (induction "[LF]" ls rule: join.induct)
  case 1
  then show ?case by simp
next
  case (2 x)
  then show ?case by (simp add: splitLines_plain)
next
  case (3 x y ys)
  have "splitLines (join [LF] (y # ys)) = y # ys"
    using 3 by simp
  moreover have "CR \<notin> set x \<and> LF \<notin> set x"
    using 3(3)[of x] by simp
  ultimately show ?case
    by (simp add: splitLines_plain_LF del: splitLines.simps)
qed

lemma splitLines_CR_LF: "splitLines (CR # LF # ds) = [] # splitLines ds"
  by simp

lemma splitLines_CR_other: "d \<noteq> LF \<Longrightarrow> splitLines (CR # d # ds) = [] # splitLines (d # ds)"
  by simp

lemma splitLines_LF: "splitLines (LF # cs) = [] # splitLines cs"
  by simp

lemma splitLines_char:
  "c \<noteq> CR \<Longrightarrow> c \<noteq> LF \<Longrightarrow> splitLines cs = h # t \<Longrightarrow> splitLines (c # cs) = (c # h) # t"
  by simp

lemmas splitLines_unfold = splitLines_CR_LF splitLines_CR_other splitLines_LF splitLines_char

lemma splitLines_pieces: "l \<in> set (splitLines s) \<Longrightarrow> CR \<notin> set l \<and> LF \<notin> set l"
proof (induction s arbitrary: l rule: splitLines.induct)
  case 1
  then show ?case by simp
next
  case (2 c cs)
  show ?case
  proof (cases "c = CR")
    case True
    show ?thesis
    proof (cases cs)
      case Nil
      with True "2.prems" show ?thesis by simp
    next
      case (Cons d ds)
      show ?thesis
      proof (cases "d = LF")
        case dLF: True
        from "2.prems" True Cons dLF have "l = [] \<or> l \<in> set (splitLines ds)"
          by (simp del: splitLines.simps add: splitLines_unfold)
        then show ?thesis using "2.IH"(1)[OF True Cons dLF] by auto
      next
        case dnLF: False
        from "2.prems" True Cons dnLF have "l = [] \<or> l \<in> set (splitLines cs)"
          by (simp del: splitLines.simps add: splitLines_unfold)
        then show ?thesis using "2.IH"(2)[OF True Cons dnLF] by auto
      qed
    qed
  next
    case nCR: False
    show ?thesis
    proof (cases "c = LF")
      case True
      from "2.prems" nCR True have "l = [] \<or> l \<in> set (splitLines cs)"
        by (simp del: splitLines.simps add: splitLines_unfold)
      then show ?thesis using "2.IH"(3)[OF nCR True] by auto
    next
      case False
      obtain h t where ht: "splitLines cs = h # t"
        using splitLines_not_Nil[of cs] by (cases "splitLines cs") auto
      from "2.prems" nCR False ht have "l = c # h \<or> l \<in> set t"
        by (simp del: splitLines.simps add: splitLines_unfold)
      then show ?thesis using "2.IH"(4)[OF nCR False] ht nCR False by auto
    qed
  qed
qed


lemma splitLines_join_filter:
  "splitLines (join [LF] (filter P (splitLines contents))) =
     (if filter P (splitLines contents) = [] then [[]] else filter P (splitLines contents))"
proof (cases "filter P (splitLines contents) = []")
  case True
  then show ?thesis by simp
next
  case False
  have "splitLines (join [LF] (filter P (splitLines contents))) = filter P (splitLines contents)"
  proof (rule splitLines_join)
    show "filter P (splitLines contents) \<noteq> []" by fact
  next
    fix l
    assume "l \<in> set (filter P (splitLines contents))"
    then have "l \<in> set (splitLines contents)" by simp
    then show "CR \<notin> set l \<and> LF \<notin> set l" by (rule splitLines_pieces)
  qed
  with False show ?thesis by simp
qed

text \<open>
  C4. For every resolved body, the text \<open>processCss\<close> hands to postcss is the block of
  the body's \<open>@import\<close>/\<open>@use\<close> lines (in their order, joined by line feeds, the
  block trimmed), a line feed, and then the rule \<open>.<name>-<hash>{...}\<close>; the lines
  between the braces are exactly the lines of the body that are no directive (one empty
  line when there is none); and the hash is taken of the whole body, directive lines
  included.
\<close>

theorem C4_directives_before_rule:
  "unprocessedCss ext contents nm =
     trim (join [LF] (filter isImportOrUse (splitLines contents))) @ [LF] @ ''.'' @ nm @ ''-''
       @ hash ext contents @ ''{'' @ codeWithoutImportsAndUses contents @ ''}''
   \<and> splitLines (join [LF] (filter isImportOrUse (splitLines contents))) =
       (if filter isImportOrUse (splitLines contents) = [] then [[]]
        else filter isImportOrUse (splitLines contents))
   \<and> splitLines (codeWithoutImportsAndUses contents) =
       (if filter (\<lambda>line. \<not> isImportOrUse line) (splitLines contents) = [] then [[]]
        else filter (\<lambda>line. \<not> isImportOrUse line) (splitLines contents))
   \<and> processCss ext contents nm isScss =
       (case postcss_process ext (if isScss then [] else [PostcssNested])
               (if isScss then Some PostcssScss else None) (unprocessedCss ext contents nm) of
          Inl e \<Rightarrow> Inl e
        | Inr css \<Rightarrow> Inr (css, nm @ ''-'' @ hash ext contents))"
proof -
  have a: "unprocessedCss ext contents nm =
     trim (join [LF] (filter isImportOrUse (splitLines contents))) @ [LF] @ ''.'' @ nm @ ''-''
       @ hash ext contents @ ''{'' @ codeWithoutImportsAndUses contents @ ''}''"
    by (simp add: unprocessedCss_def importsAndUses_def className_def)
  have b: "splitLines (codeWithoutImportsAndUses contents) =
       (if filter (\<lambda>line. \<not> isImportOrUse line) (splitLines contents) = [] then [[]]
        else filter (\<lambda>line. \<not> isImportOrUse line) (splitLines contents))"
    unfolding codeWithoutImportsAndUses_def by (rule splitLines_join_filter)
  have c: "processCss ext contents nm isScss =
       (case postcss_process ext (if isScss then [] else [PostcssNested])
               (if isScss then Some PostcssScss else None) (unprocessedCss ext contents nm) of
          Inl e \<Rightarrow> Inl e
        | Inr css \<Rightarrow> Inr (css, nm @ ''-'' @ hash ext contents))"
    by (simp add: processCss_def className_def split: sum.splits)
  show ?thesis
    using a b c splitLines_join_filter[of isImportOrUse contents] by blast
qed

theorem C4_directives_before_rule_witness:
  "\<forall>ext. unprocessedCss ext (''color:red;'' @ [LF] @ '' @use a; '' @ [LF] @ ''top:0;'') ''box'' =
      ''@use a;'' @ [LF] @ ''.box-'' @ hash ext (''color:red;'' @ [LF] @ '' @use a; '' @ [LF] @ ''top:0;'')
        @ ''{color:red;'' @ [LF] @ ''top:0;}''"
proof
  fix ext
  have i: "isImportOrUse '' @use a; ''" "\<not> isImportOrUse ''color:red;''" "\<not> isImportOrUse ''top:0;''"
    by (simp_all add: isImportOrUse_def trim_def isWhiteSpace_def startsWith_def)
  have s: "splitLines (''color:red;'' @ [LF] @ '' @use a; '' @ [LF] @ ''top:0;'')
             = [''color:red;'', '' @use a; '', ''top:0;'']"
    by simp
  have t: "trim '' @use a; '' = ''@use a;''"
    by (simp add: trim_def isWhiteSpace_def)
  show "unprocessedCss ext (''color:red;'' @ [LF] @ '' @use a; '' @ [LF] @ ''top:0;'') ''box'' =
      ''@use a;'' @ [LF] @ ''.box-'' @ hash ext (''color:red;'' @ [LF] @ '' @use a; '' @ [LF] @ ''top:0;'')
        @ ''{color:red;'' @ [LF] @ ''top:0;}''"
    using C4_directives_before_rule[of ext "''color:red;'' @ [LF] @ '' @use a; '' @ [LF] @ ''top:0;''" "''box''" False]
    by (simp add: unprocessedCss_def importsAndUses_def codeWithoutImportsAndUses_def className_def i t)
qed

subsection \<open>C5: the synthetic program\<close>

lemma join_contains: "x \<in> set xs \<Longrightarrow> \<exists>a b. join sep xs = a @ x @ b"
proof (induction sep xs rule: join.induct)
  case (1 sep)
  then show ?case by simp
next
  case (2 sep y)
  then have "join sep [y] = [] @ x @ []" by simp
  then show ?case by blast
next
  case (3 sep y z zs)
  show ?case
  proof (cases "x = y")
    case True
    then have "join sep (y # z # zs) = [] @ x @ (sep @ join sep (z # zs))" by simp
    then show ?thesis by blast
  next
    case False
    with 3 obtain a b where "join sep (z # zs) = a @ x @ b" by auto
    then have "join sep (y # z # zs) = (y @ sep @ a) @ x @ b" by simp
    then show ?thesis by blast
  qed
qed

text \<open>
  C5. In the program text that \<open>evalWithEsbuild\<close> builds, the declaration
  \<open>var k = 'v';\<close> of every generated-class binding \<open>(k, v)\<close> stands after the whole
  of the outer-scope source and before the final \<open>module.exports = (expression);\<close>,
  and this text is what esbuild and then the evaluation are given.
  (That a later \<open>var\<close> of a name wins in the evaluation is JavaScript's rule for
  \<open>var\<close>, applied by esbuild and node outside this file; the theorem is about the
  text they are given.)
\<close>

theorem C5_generated_declarations_follow_outer_source:
  assumes "(k, v) \<in> set classes"
  shows "(\<exists>pre post. syntheticProgram expression outer classes =
           outer @ pre @ (''var '' @ k @ '' = '' @ [SQ] @ v @ [SQ] @ '';'') @ post
             @ ''module.exports = ('' @ expression @ '');'')
         \<and> evalWithEsbuild ext expression outer classes =
             (case esbuild_transformSync ext (syntheticProgram expression outer classes) of
                Inl e \<Rightarrow> Inl e
              | Inr treeshaked \<Rightarrow> nodeEval ext treeshaked (hash ext expression) classes)"
proof -
  from assms have "generatedClassesDecl (k, v) \<in> set (map generatedClassesDecl classes)"
    by simp
  then obtain a b where ab: "generatedClassesDecls classes = a @ generatedClassesDecl (k, v) @ b"
    unfolding generatedClassesDecls_def using join_contains by blast
  have "syntheticProgram expression outer classes =
           outer @ ([LF, LF, TAB, TAB] @ a) @ (''var '' @ k @ '' = '' @ [SQ] @ v @ [SQ] @ '';'')
             @ (b @ [LF, LF, TAB, TAB]) @ ''module.exports = ('' @ expression @ '');''"
    by (simp add: syntheticProgram_def ab generatedClassesDecl_def)
  then have "\<exists>pre post. syntheticProgram expression outer classes =
           outer @ pre @ (''var '' @ k @ '' = '' @ [SQ] @ v @ [SQ] @ '';'') @ post
             @ ''module.exports = ('' @ expression @ '');''"
    by blast
  then show ?thesis by (simp add: evalWithEsbuild_def)
qed

theorem C5_generated_declarations_follow_outer_source_witness:
  "(''box'', '':where(.box-h)'') \<in> set [(''box'', '':where(.box-h)'')]
   \<and> (\<exists>pre post. syntheticProgram (BACKTICK # ''${box} a{}'' @ [BACKTICK]) ''var box = 1;'' [(''box'', '':where(.box-h)'')] =
        ''var box = 1;'' @ pre @ (''var box = '' @ [SQ] @ '':where(.box-h)'' @ [SQ] @ '';'') @ post
          @ ''module.exports = ('' @ (BACKTICK # ''${box} a{}'' @ [BACKTICK]) @ '');'')
   \<and> syntheticProgram (BACKTICK # ''${box} a{}'' @ [BACKTICK]) ''var box = 1;'' [(''box'', '':where(.box-h)'')] =
        ''var box = 1;'' @ [LF, LF, TAB, TAB] @ ''var box = '' @ [SQ] @ '':where(.box-h)'' @ [SQ] @ '';''
          @ [LF, LF, TAB, TAB] @ ''module.exports = ('' @ [BACKTICK] @ ''${box} a{}'' @ [BACKTICK] @ '');''"
  using C5_generated_declarations_follow_outer_source
    [of "''box''" "'':where(.box-h)''" "[(''box'', '':where(.box-h)'')]"
        "BACKTICK # ''${box} a{}'' @ [BACKTICK]" "''var box = 1;''" sampleExternals]
  by (simp add: syntheticProgram_def generatedClassesDecls_def generatedClassesDecl_def)

subsection \<open>C1: what the class name depends on\<close>

text \<open>
  C1 as stated fails: the class name is \<open><declared name>-<hash>\<close>, so two sites with
  the same body and different declared names get different class names (with the sample
  hash \<open>box-hrr\<close> and \<open>outer-hrr\<close>), whatever the hash function is. The hash is taken of the body as it is, untrimmed: for a hash that
  tells \<open>color:red;\<close> with a leading blank from \<open>color:red;\<close> the names differ too.
\<close>

theorem C1_declared_name_changes_class_name:
  "className sampleExternals ''color:red;'' ''box'' = ''box-hrr''
   \<and> className sampleExternals ''color:red;'' ''outer'' = ''outer-hrr''
   \<and> (\<forall>ext. className ext ''color:red;'' ''box'' \<noteq> className ext ''color:red;'' ''outer'')
   \<and> (\<exists>ext. className ext '' color:red;'' ''box'' \<noteq> className ext ''color:red;'' ''box'')"
proof (intro conjI)
  show "className sampleExternals ''color:red;'' ''box'' = ''box-hrr''"
    by (simp add: className_def sampleExternals_def)
next
  show "className sampleExternals ''color:red;'' ''outer'' = ''outer-hrr''"
    by (simp add: className_def sampleExternals_def)
next
  show "\<forall>ext. className ext ''color:red;'' ''box'' \<noteq> className ext ''color:red;'' ''outer''"
    by (simp add: className_def)
next
  have "className (sampleExternals\<lparr>hash := (\<lambda>s. s)\<rparr>) '' color:red;'' ''box''
        \<noteq> className (sampleExternals\<lparr>hash := (\<lambda>s. s)\<rparr>) ''color:red;'' ''box''"
    by (simp add: className_def)
  then show "\<exists>ext. className ext '' color:red;'' ''box'' \<noteq> className ext ''color:red;'' ''box''"
    by blast
qed

text \<open>
  C1, amended. For every two calls of \<open>processCss\<close> on the same body text (as it is
  handed over, untrimmed), whatever the dialect and whatever file the site is in (the
  file is no input of \<open>processCss\<close>): each class name is the declared name, a dash and
  the hash of the body; so what follows the declared name is the same in both, and the
  class names are equal exactly when the declared names are.
\<close>

theorem C1_same_body_same_hash_suffix:
  assumes "processCss ext contents n1 scss1 = Inr (css1, c1)"
    and "processCss ext contents n2 scss2 = Inr (css2, c2)"
  shows "c1 = n1 @ ''-'' @ hash ext contents \<and> c2 = n2 @ ''-'' @ hash ext contents
         \<and> drop (length n1) c1 = drop (length n2) c2 \<and> (c1 = c2 \<longleftrightarrow> n1 = n2)"
  using assms by (auto simp: processCss_def className_def split: sum.splits)

theorem C1_same_body_same_hash_suffix_witness:
  "processCss sampleExternals ''color:red;'' ''box'' False
     = Inr ([LF] @ ''.box-hrr{color:red;}'', ''box-hrr'')
   \<and> processCss sampleExternals ''color:red;'' ''outer'' True
     = Inr ([LF] @ ''.outer-hrr{color:red;}'', ''outer-hrr'')
   \<and> drop (length ''box'') ''box-hrr'' = drop (length ''outer'') ''outer-hrr''"
proof -
  have h1: "processCss sampleExternals ''color:red;'' ''box'' False
     = Inr ([LF] @ ''.box-hrr{color:red;}'', ''box-hrr'')"
    by (simp add: processCss_def unprocessedCss_def className_def importsAndUses_def
        codeWithoutImportsAndUses_def isImportOrUse_def trim_def isWhiteSpace_def
        startsWith_def sampleExternals_def)
  have h2: "processCss sampleExternals ''color:red;'' ''outer'' True
     = Inr ([LF] @ ''.outer-hrr{color:red;}'', ''outer-hrr'')"
    by (simp add: processCss_def unprocessedCss_def className_def importsAndUses_def
        codeWithoutImportsAndUses_def isImportOrUse_def trim_def isWhiteSpace_def
        startsWith_def sampleExternals_def)
  show ?thesis
    using C1_same_body_same_hash_suffix[OF h1 h2] h1 h2 by simp
qed

subsection \<open>The loop over the template sites\<close>

lemma processNode_Inr:
  assumes "processNode ext options code ident scssName node st = Inr st'"
  obtains inlined contents imp where
    "populateInlinedVars ext options ident node st = Inr inlined"
    "templateContentsOf ext (evaluateExpressions options) (quasi_expressions node)
       (rawTemplateOf code node) inlined (generatedClasses st) = Inr (JSString contents)"
    "inlinedVars st' = inlined"
    "generatedClasses st' =
       (if originalNameOr (x_originalName node) \<noteq> balloon
        then AList.update (originalNameOr (x_originalName node))
               (selectorReference (className ext contents (originalNameOr (x_originalName node))))
               (generatedClasses st)
        else generatedClasses st)"
    "ms_edits (magicCode st') = ms_edits (magicCode st) @
       [Append imp,
        Update (tt_start node) (tt_end node)
          ([DQ] @ className ext contents (originalNameOr (x_originalName node)) @ [DQ])]"
    "ms_original (magicCode st') = ms_original (magicCode st)"
proof -
  from assms obtain inlined where i: "populateInlinedVars ext options ident node st = Inr inlined"
    by (cases "populateInlinedVars ext options ident node st") (simp_all add: processNode_def Let_def)
  from assms i obtain v where v: "templateContentsOf ext (evaluateExpressions options) (quasi_expressions node)
       (rawTemplateOf code node) inlined (generatedClasses st) = Inr v"
    by (cases "templateContentsOf ext (evaluateExpressions options) (quasi_expressions node)
       (rawTemplateOf code node) inlined (generatedClasses st)") (simp_all add: processNode_def Let_def)
  let ?nm = "originalNameOr (x_originalName node)"
  let ?scss = "(case tag node of Identifier nm \<Rightarrow> Some nm = scssName | OtherExpression \<Rightarrow> False)"
  from assms i v obtain css cls where c: "processCssValue ext v ?nm ?scss = Inr (css, cls)"
    by (cases "processCssValue ext v ?nm ?scss") (auto simp add: processNode_def Let_def)
  then obtain contents where s: "v = JSString contents"
    by (cases v) (simp_all add: processCssValue_def)
  with c have cls: "cls = className ext contents ?nm"
    by (auto simp: processCssValue_def processCss_def split: sum.splits)
  from assms i v c have st': "st' = \<lparr>inlinedVars = inlined,
        generatedClasses = (if ?nm \<noteq> balloon then AList.update ?nm (selectorReference cls) (generatedClasses st)
                            else generatedClasses st),
        magicCode = ms_update (ms_append (magicCode st)
                      (''import '' @ [DQ] @ ''./'' @ toLowerCase (cls @ ''.acab.'' @ (if ?scss then ''scss'' else ''css'')) @ [DQ] @ '';'' @ [LF]))
                      (tt_start node) (tt_end node) ([DQ] @ cls @ [DQ]),
        cssList = (cssList st)(normalizePath (path_join ext (path_dirname ext ident)
                     (toLowerCase (cls @ ''.acab.'' @ (if ?scss then ''scss'' else ''css'')))) \<mapsto> css)\<rparr>"
    by (simp add: processNode_def Let_def)
  show thesis
    by (rule that[of inlined contents]) (use i v s cls st' in \<open>simp_all add: ms_update_def ms_append_def\<close>)
qed

lemma transform_loop_append:
  "transform_loop ext options code ident scssName (xs @ ys) st =
     (case transform_loop ext options code ident scssName xs st of
        (Some e, s) \<Rightarrow> (Some e, s)
      | (None, s) \<Rightarrow> transform_loop ext options code ident scssName ys s)"
  by (induction xs arbitrary: st) (simp_all split: sum.splits)












subsection \<open>The sample file, step by step\<close>

lemmas sample_step_simps =
  processNode_def populateInlinedVars_def templateContentsOf_def rawTemplateOf_def
  withName_def originalNameOf_def originalNameOr_def balloon_def initialState_def
  jsSlice_def trim_def isWhiteSpace_def processCssValue_def processCss_def
  unprocessedCss_def className_def importsAndUses_def codeWithoutImportsAndUses_def
  isImportOrUse_def startsWith_def selectorReference_def useWhere_def
  toLowerCase_def normalizePath_def newMagicString_def ms_append_def ms_update_def

lemma sample_box_step:
  "processNode sampleExternals options sampleCode ''/app/src/main.ts'' None (withName sampleBox)
     (initialState sampleCode registry)
   = Inr (sampleAfterBox registry)"
  by (simp add: sample_step_simps sampleBox_def sampleCode_def sampleExternals_def
      sampleAfterBox_def)


lemma sample_declaredNames: "declaredNames [withName sampleBox] = {''box''}"
  by (simp add: declaredNames_def withName_def sampleBox_def originalNameOf_def
      originalNameOr_def balloon_def)

subsection \<open>C7: the registered selector reference\<close>

text \<open>
  C7 as stated fails in its second half: \<open>useWhere\<close> is a constant of the module, and
  \<open>Options\<close> has no field that reaches it. For the first site of the sample file,
  whatever the options are, the binding registered for \<open>box\<close> is
  \<open>:where(.box-hrr)\<close> and never the bare \<open>.box-hrr\<close>.
\<close>

theorem C7_no_option_switches_the_guard_off:
  "\<forall>options. (case processNode sampleExternals options sampleCode ''/app/src/main.ts'' None
                      (withName sampleBox) (initialState sampleCode Map.empty) of
                 Inl e \<Rightarrow> False
               | Inr st' \<Rightarrow> map_of (generatedClasses st') ''box'' = Some '':where(.box-hrr)''
                           \<and> map_of (generatedClasses st') ''box'' \<noteq> Some ''.box-hrr'')"
  by (simp add: sample_box_step sampleAfterBox_def)

text \<open>
  C7, amended. For every site with a declared name (not empty, not the placeholder) that
  is compiled, under any options, the selector reference registered under that name is
  \<open>:where(.<class>)\<close>, where \<open><class>\<close> is the class name whose string literal
  replaces the site, and that begins with the declared name and a dash.
\<close>

theorem C7_named_site_registers_where_selector:
  assumes "processNode ext options code ident scssName node st = Inr st'"
    and "x_originalName node = Some nm" and "nm \<noteq> []" and "nm \<noteq> balloon"
  shows "\<exists>cls. map_of (generatedClasses st') nm = Some ('':where(.'' @ cls @ '')'')
           \<and> last (ms_edits (magicCode st')) = Update (tt_start node) (tt_end node) ([DQ] @ cls @ [DQ])
           \<and> take (length nm + 1) cls = nm @ ''-''"
proof -
  from assms(2,3) have n: "originalNameOr (x_originalName node) = nm"
    by (simp add: originalNameOr_def)
  from assms(1) obtain inlined contents imp where
    g: "generatedClasses st' =
       (if originalNameOr (x_originalName node) \<noteq> balloon
        then AList.update (originalNameOr (x_originalName node))
               (selectorReference (className ext contents (originalNameOr (x_originalName node))))
               (generatedClasses st)
        else generatedClasses st)" and
    e: "ms_edits (magicCode st') = ms_edits (magicCode st) @
       [Append imp,
        Update (tt_start node) (tt_end node)
          ([DQ] @ className ext contents (originalNameOr (x_originalName node)) @ [DQ])]"
    by (elim processNode_Inr)
  from g n assms(4) have "map_of (generatedClasses st') nm
      = Some ('':where(.'' @ className ext contents nm @ '')'')"
    by (simp add: AList.update_conv' selectorReference_def useWhere_def)
  moreover from e n have "last (ms_edits (magicCode st'))
      = Update (tt_start node) (tt_end node) ([DQ] @ className ext contents nm @ [DQ])"
    by simp
  moreover have "take (length nm + 1) (className ext contents nm) = nm @ ''-''"
    by (simp add: className_def)
  ultimately show ?thesis by blast
qed

theorem C7_named_site_registers_where_selector_witness:
  "processNode sampleExternals sampleOptions sampleCode ''/app/src/main.ts'' None
     (withName sampleBox) (initialState sampleCode Map.empty) = Inr (sampleAfterBox Map.empty)
   \<and> x_originalName (withName sampleBox) = Some ''box'' \<and> ''box'' \<noteq> [] \<and> ''box'' \<noteq> balloon
   \<and> (\<exists>cls. map_of (generatedClasses (sampleAfterBox Map.empty)) ''box''
              = Some ('':where(.'' @ cls @ '')'')
           \<and> last (ms_edits (magicCode (sampleAfterBox Map.empty)))
              = Update (tt_start (withName sampleBox)) (tt_end (withName sampleBox)) ([DQ] @ cls @ [DQ])
           \<and> take (length ''box'' + 1) cls = ''box-'')"
proof -
  have h1: "processNode sampleExternals sampleOptions sampleCode ''/app/src/main.ts'' None
     (withName sampleBox) (initialState sampleCode Map.empty) = Inr (sampleAfterBox Map.empty)"
    by (rule sample_box_step)
  have h2: "x_originalName (withName sampleBox) = Some ''box''"
    by (simp add: withName_def sampleBox_def originalNameOf_def)
  have h3: "''box'' \<noteq> []" by simp
  have h4: "''box'' \<noteq> balloon" by (simp add: balloon_def)
  from C7_named_site_registers_where_selector[OF h1 h2 h3 h4]
  show ?thesis using h1 h2 h3 h4 by simp
qed

subsection \<open>The import detector against the claims' words\<close>

lemma specifierAliases_Cons:
  "specifierAliases role (sp # specs) =
     (case sp of ImportSpecifier imported loc \<Rightarrow> if imported = role then [loc] else []
               | ImportDefaultSpecifier loc \<Rightarrow> []
               | ImportNamespaceSpecifier loc \<Rightarrow> []) @ specifierAliases role specs"
  by (simp add: specifierAliases_def)

lemma specifierAliases_Nil: "specifierAliases role [] = []"
  by (simp add: specifierAliases_def)

lemma forEachSpecifier_refines:
  "cssImportName (forEachSpecifier specs r) =
     (if specifierAliases ''css'' specs = [] then cssImportName r
      else Some (last (specifierAliases ''css'' specs)))
   \<and> scssImportName (forEachSpecifier specs r) =
     (if specifierAliases ''scss'' specs = [] then scssImportName r
      else Some (last (specifierAliases ''scss'' specs)))
   \<and> statements (forEachSpecifier specs r) = statements r"
proof (induction specs arbitrary: r)
  case Nil
  then show ?case by (simp add: specifierAliases_Nil)
next
  case (Cons sp specs)
  show ?case
    by (cases sp) (simp_all add: Cons.IH specifierAliases_Cons recordSpecifier_def)
qed

lemma someImportedCssOrScss_refines:
  "someImportedCssOrScss specs = Inr found
   \<Longrightarrow> found = (specifierAliases ''css'' specs \<noteq> [] \<or> specifierAliases ''scss'' specs \<noteq> [])"
  by (induction specs rule: someImportedCssOrScss.induct)
     (auto simp: specifierAliases_Cons specifierAliases_Nil split: if_splits)

lemma aliasesOf_Cons:
  "aliasesOf role (st # stmts) =
     (case st of ImportDeclaration src specs s e \<Rightarrow>
                   if src = ''@acab/ecsstatic'' then specifierAliases role specs else []
               | OtherStatement \<Rightarrow> []) @ aliasesOf role stmts"
  by (simp add: aliasesOf_def)

lemma styleImportSpans_Cons:
  "styleImportSpans (st # stmts) =
     (case st of ImportDeclaration src specs s e \<Rightarrow>
                   if src = ''@acab/ecsstatic''
                      \<and> (specifierAliases ''css'' specs \<noteq> [] \<or> specifierAliases ''scss'' specs \<noteq> [])
                   then [\<lparr>span_start = s, span_end = e\<rparr>] else []
               | OtherStatement \<Rightarrow> []) @ styleImportSpans stmts"
  by (simp add: styleImportSpans_def)

lemma findEcsstaticImports_loop_refines:
  "findEcsstaticImports_loop stmts r = Inr r'
   \<Longrightarrow> cssImportName r' =
         (if aliasesOf ''css'' stmts = [] then cssImportName r else Some (last (aliasesOf ''css'' stmts)))
       \<and> scssImportName r' =
         (if aliasesOf ''scss'' stmts = [] then scssImportName r else Some (last (aliasesOf ''scss'' stmts)))
       \<and> statements r' = statements r @ styleImportSpans stmts"
proof (induction stmts r rule: findEcsstaticImports_loop.induct)
  case (1 r)
  then show ?case by (simp add: aliasesOf_def styleImportSpans_def)
next
  case (2 rest r)
  then show ?case by (simp add: aliasesOf_Cons styleImportSpans_Cons)
next
  case (3 src specs s e rest r)
  show ?case
  proof (cases "src = ''@acab/ecsstatic''")
    case False
    with 3 show ?thesis by (simp add: aliasesOf_Cons styleImportSpans_Cons)
  next
    case True
    with "3.prems" obtain found where f: "someImportedCssOrScss specs = Inr found"
      by (cases "someImportedCssOrScss specs") simp_all
    let ?r1 = "forEachSpecifier specs
                  (if found then r\<lparr>statements := statements r @ [\<lparr>span_start = s, span_end = e\<rparr>]\<rparr>
                   else r)"
    from "3.prems" True f have l: "findEcsstaticImports_loop rest ?r1 = Inr r'"
      by simp
    note ih = "3.IH"(1)[OF True f l]
    note fe = forEachSpecifier_refines[of specs
        "if found then r\<lparr>statements := statements r @ [\<lparr>span_start = s, span_end = e\<rparr>]\<rparr> else r"]
    note sm = someImportedCssOrScss_refines[OF f]
    show ?thesis
      using ih fe sm True
      by (auto simp: aliasesOf_Cons styleImportSpans_Cons)
  qed
qed

lemma findEcsstaticImports_refines:
  assumes "findEcsstaticImports ast = Inr imports"
  shows "cssImportName imports = lastAlias ''css'' (body ast)"
    and "scssImportName imports = lastAlias ''scss'' (body ast)"
    and "statements imports = styleImportSpans (body ast)"
  using findEcsstaticImports_loop_refines[OF assms[unfolded findEcsstaticImports_def]]
  by (simp_all add: lastAlias_def)

lemma aliases_give_spans:
  "aliasesOf ''css'' stmts \<noteq> [] \<or> aliasesOf ''scss'' stmts \<noteq> [] \<Longrightarrow> styleImportSpans stmts \<noteq> []"
proof (induction stmts)
  case Nil
  then show ?case by (simp add: aliasesOf_def)
next
  case (Cons st stmts)
  then show ?case
    by (cases st) (auto simp: aliasesOf_Cons styleImportSpans_Cons split: if_splits)
qed

lemma sites_need_statements:
  assumes "findEcsstaticImports ast = Inr imports"
    and "findCssTaggedTemplateLiterals ast (filterBoolean [cssImportName imports, scssImportName imports]) \<noteq> []"
  shows "statements imports \<noteq> []"
proof -
  from assms(2) have "filterBoolean [cssImportName imports, scssImportName imports] \<noteq> []"
  proof (rule contrapos_nn)
    assume "filterBoolean [cssImportName imports, scssImportName imports] = []"
    then have "\<And>node. \<not> tagMatches (filterBoolean [cssImportName imports, scssImportName imports]) node"
      by (simp add: tagMatches_def split: TagNode.splits)
    then show "findCssTaggedTemplateLiterals ast
        (filterBoolean [cssImportName imports, scssImportName imports]) = []"
      by (simp add: findCssTaggedTemplateLiterals_def)
  qed
  then have "cssImportName imports \<noteq> None \<or> scssImportName imports \<noteq> None"
    by (cases "cssImportName imports"; cases "scssImportName imports") simp_all
  then have "aliasesOf ''css'' (body ast) \<noteq> [] \<or> aliasesOf ''scss'' (body ast) \<noteq> []"
    using findEcsstaticImports_refines(1,2)[OF assms(1)] by (auto simp: lastAlias_def split: if_splits)
  from aliases_give_spans[OF this] findEcsstaticImports_refines(3)[OF assms(1)]
  show ?thesis by simp
qed

subsection \<open>C8: files with nothing to transform\<close>

lemma transform_unchanged_when_nothing_found:
  assumes "parse ext code = Inr ast" and "findEcsstaticImports ast = Inr imports"
    and "statements imports = []
         \<or> findCssTaggedTemplateLiterals ast
              (filterBoolean [cssImportName imports, scssImportName imports]) = []"
  shows "transform ext options registry code ident = (Inr Unchanged, registry)"
  using assms by (auto simp: transform_def Let_def)

text \<open>
  C8. A file with no recognized import of the style package should come back unmodified.
  The file \<open>import * as ecs from '@acab/ecsstatic';\<close> has none: its only specifier
  is a namespace specifier. \<open>findEcsstaticImports\<close> reads \<open>imported.name\<close> of every
  specifier of the statement, a namespace (or default) specifier has no \<open>imported\<close>,
  and the transform ends in a TypeError instead of returning the file as it is. (Where
  \<open>findEcsstaticImports\<close> returns, the file does come back unmodified and the registry
  is untouched: \<open>transform_unchanged_when_nothing_found\<close>.)
\<close>

theorem C8_namespace_import_throws:
  "transform
     (ext\<lparr>parse := (\<lambda>code. Inr \<lparr>body = [ImportDeclaration ''@acab/ecsstatic''
                                            [ImportNamespaceSpecifier ''ecs''] 0 39],
                                   taggedTemplates = []\<rparr>)\<rparr>)
     options registry
     (''import * as ecs from '' @ [SQ] @ ''@acab/ecsstatic'' @ [SQ] @ '';'')
     ''/app/src/main.ts''
   = (Inl (Error ''TypeError'' ''Cannot read properties of undefined (reading 'name')''), registry)"
  by (simp add: transform_def beforeQuery_def testScriptExtension_def endsWith_def
      startsWith_def findEcsstaticImports_def)

subsection \<open>C6: a failed evaluation\<close>

lemma processNode_evaluation_throws:
  assumes "populateInlinedVars ext options ident node st = Inr inlined"
    and "templateContentsOf ext (evaluateExpressions options) (quasi_expressions node)
           (rawTemplateOf code node) inlined (generatedClasses st) = Inl e"
  shows "processNode ext options code ident scssName node st = Inl e"
  using assms by (simp add: processNode_def Let_def)

lemma processNode_evaluation_not_a_string:
  assumes "populateInlinedVars ext options ident node st = Inr inlined"
    and "templateContentsOf ext (evaluateExpressions options) (quasi_expressions node)
           (rawTemplateOf code node) inlined (generatedClasses st) = Inr v"
    and "\<And>s. v \<noteq> JSString s"
  shows "\<exists>m. processNode ext options code ident scssName node st = Inl (Error ''TypeError'' m)"
proof (cases v)
  case (JSString s)
  with assms(3) show ?thesis by blast
qed (use assms(1,2) in \<open>simp_all add: processNode_def Let_def processCssValue_def\<close>)

lemma transform_aborts_with_the_loop:
  assumes "\<not> jsIncludes (beforeQuery ident) ''node_modules''"
    and "testScriptExtension (beforeQuery ident)"
    and "parse ext code = Inr ast" and "findEcsstaticImports ast = Inr imports"
    and "findCssTaggedTemplateLiterals ast
           (filterBoolean [cssImportName imports, scssImportName imports]) = pre @ node # post"
    and "transform_loop ext options code (beforeQuery ident) (scssImportName imports) pre
           (initialState code registry) = (None, st)"
    and "processNode ext options code (beforeQuery ident) (scssImportName imports) node st = Inl e"
  shows "transform ext options registry code ident = (Inl e, cssList st)"
proof -
  have s: "statements imports \<noteq> []"
    using sites_need_statements[OF assms(4)] assms(5) by simp
  have l: "transform_loop ext options code (beforeQuery ident) (scssImportName imports)
             (pre @ node # post) (initialState code registry) = (Some e, st)"
    using assms(6,7) by (simp add: transform_loop_append)
  show ?thesis
    using assms(1-5) s l by (simp add: transform_def Let_def)
qed

lemma sample_box_step_any_eval:
  "processNode (sampleExternals\<lparr>nodeEval := f\<rparr>) options sampleCode ''/app/src/main.ts'' None
     (withName sampleBox) (initialState sampleCode registry)
   = Inr (sampleAfterBox registry)"
  by (simp add: sample_step_simps sampleBox_def sampleCode_def sampleExternals_def
      sampleAfterBox_def)

lemma sample_beforeQuery: "beforeQuery ''/app/src/main.ts'' = ''/app/src/main.ts''"
  by (simp add: beforeQuery_def)

lemma sample_eligible:
  "\<not> jsIncludes (beforeQuery ''/app/src/main.ts'') ''node_modules''"
  "testScriptExtension (beforeQuery ''/app/src/main.ts'')"
  by (simp_all add: sample_beforeQuery startsWith_def testScriptExtension_def endsWith_def)

lemma sample_imports:
  "findEcsstaticImports sampleProgram
     = Inr \<lparr>cssImportName = Some ''css'', scssImportName = None,
            statements = [\<lparr>span_start = 0, span_end = 38\<rparr>]\<rparr>"
  by (simp add: findEcsstaticImports_def sampleProgram_def recordSpecifier_def)

lemma sample_sites:
  "findCssTaggedTemplateLiterals sampleProgram (filterBoolean [Some ''css'', None])
     = [withName sampleBox] @ withName sampleOuter # []"
  by (simp add: findCssTaggedTemplateLiterals_def sampleProgram_def tagMatches_def
      sampleBox_def sampleOuter_def)

lemma sample_raw_outer:
  "rawTemplateOf sampleCode (withName sampleOuter)
     = BACKTICK # ''${box} span{color:blue;}'' @ [BACKTICK]"
  by (simp add: rawTemplateOf_def withName_def sampleOuter_def sampleCode_def jsSlice_def
      trim_def isWhiteSpace_def)

lemma sample_outer_populate:
  "populateInlinedVars (sampleExternals\<lparr>nodeEval := f\<rparr>) sampleOptions
     (beforeQuery ''/app/src/main.ts'') (withName sampleOuter) (sampleAfterBox registry) = Inr []"
  by (simp add: populateInlinedVars_def sampleOptions_def resolveImports_def
      evaluateExpressions_def resolvePackages_def sampleAfterBox_def)

lemma sample_outer_evaluation:
  "processTemplateLiteral (sampleExternals\<lparr>nodeEval := f\<rparr>)
     (rawTemplateOf sampleCode (withName sampleOuter)) [] (generatedClasses (sampleAfterBox registry))
   = f (syntheticProgram (BACKTICK # ''${box} span{color:blue;}'' @ [BACKTICK]) []
          [(''box'', '':where(.box-hrr)'')])
       (hash sampleExternals (BACKTICK # ''${box} span{color:blue;}'' @ [BACKTICK]))
       [(''box'', '':where(.box-hrr)'')]"
  by (simp add: processTemplateLiteral_def evalWithEsbuild_def sample_raw_outer
      sampleExternals_def sampleAfterBox_def split: sum.splits)

lemma sample_outer_step_fails:
  assumes "processTemplateLiteral (sampleExternals\<lparr>nodeEval := f\<rparr>)
     (rawTemplateOf sampleCode (withName sampleOuter)) [] (generatedClasses (sampleAfterBox Map.empty))
   = r"
  shows "processNode (sampleExternals\<lparr>nodeEval := f\<rparr>) sampleOptions sampleCode
           (beforeQuery ''/app/src/main.ts'') None (withName sampleOuter) (sampleAfterBox Map.empty)
         = (case r of Inl e \<Rightarrow> Inl e
            | Inr v \<Rightarrow> (case processCssValue (sampleExternals\<lparr>nodeEval := f\<rparr>) v ''outer'' False of
                 Inl e \<Rightarrow> Inl e
               | Inr x \<Rightarrow> processNode (sampleExternals\<lparr>nodeEval := f\<rparr>) sampleOptions sampleCode
           (beforeQuery ''/app/src/main.ts'') None (withName sampleOuter) (sampleAfterBox Map.empty)))"
proof -
  have t: "templateContentsOf (sampleExternals\<lparr>nodeEval := f\<rparr>) (evaluateExpressions sampleOptions)
        (quasi_expressions (withName sampleOuter)) (rawTemplateOf sampleCode (withName sampleOuter)) []
        (generatedClasses (sampleAfterBox Map.empty)) = r"
    using assms
    by (simp add: templateContentsOf_def evaluateExpressions_def sampleOptions_def withName_def
        sampleOuter_def)
  have n: "originalNameOr (x_originalName (withName sampleOuter)) = ''outer''"
    by (simp add: withName_def sampleOuter_def originalNameOf_def originalNameOr_def)
  have g: "tag (withName sampleOuter) = Identifier ''css''"
    by (simp add: withName_def sampleOuter_def)
  show ?thesis
    by (cases r)
       (simp_all add: processNode_def[of _ _ _ _ _ "withName sampleOuter"] Let_def
          sample_outer_populate t n g split: sum.splits)
qed

text \<open>
  C6 as stated fails in its last part. In the sample file, let the evaluation of the
  second template yield the number 5: the transform fails with the TypeError of
  \<open>templateContents.split\<close>, whose message does not hold the expression text
  \<open>`${box} span{color:blue;}`\<close>. Let it throw \<open>ReferenceError: box is not defined\<close>
  instead: the transform fails with this very error, which does not hold the expression
  text either. \<open>processTemplateLiteral\<close> throws what it caught, and the line it logs is
  a fixed one.
\<close>

theorem C6_error_without_expression_text:
  "fst (transform (sampleExternals\<lparr>nodeEval := (\<lambda>code filename scope. Inr (JSNumber 5))\<rparr>)
          sampleOptions Map.empty sampleCode ''/app/src/main.ts'')
     = Inl (Error ''TypeError'' ''templateContents.split is not a function'')
   \<and> rawTemplateOf sampleCode (withName sampleOuter)
       = BACKTICK # ''${box} span{color:blue;}'' @ [BACKTICK]
   \<and> \<not> jsIncludes ''templateContents.split is not a function''
          (BACKTICK # ''${box} span{color:blue;}'' @ [BACKTICK])
   \<and> fst (transform (sampleExternals\<lparr>nodeEval := (\<lambda>code filename scope.
                 Inl (Error ''ReferenceError'' ''box is not defined''))\<rparr>)
          sampleOptions Map.empty sampleCode ''/app/src/main.ts'')
     = Inl (Error ''ReferenceError'' ''box is not defined'')
   \<and> \<not> jsIncludes ''box is not defined'' (BACKTICK # ''${box} span{color:blue;}'' @ [BACKTICK])"
proof -
  let ?imports = "\<lparr>cssImportName = Some ''css'', scssImportName = None,
            statements = [\<lparr>span_start = 0, span_end = 38\<rparr>]\<rparr>"
  have h5: "findCssTaggedTemplateLiterals sampleProgram
              (filterBoolean [cssImportName ?imports, scssImportName ?imports])
            = [withName sampleBox] @ withName sampleOuter # []"
    using sample_sites by simp
  have a: "transform (sampleExternals\<lparr>nodeEval := f\<rparr>) sampleOptions Map.empty sampleCode
             ''/app/src/main.ts'' = (Inl e, cssList (sampleAfterBox Map.empty))"
    if "processNode (sampleExternals\<lparr>nodeEval := f\<rparr>) sampleOptions sampleCode
           (beforeQuery ''/app/src/main.ts'') None (withName sampleOuter) (sampleAfterBox Map.empty)
         = Inl e" for f e
  proof (rule transform_aborts_with_the_loop[OF sample_eligible(1) sample_eligible(2) _ sample_imports h5])
    show "parse (sampleExternals\<lparr>nodeEval := f\<rparr>) sampleCode = Inr sampleProgram"
      by (simp add: sampleExternals_def)
    show "transform_loop (sampleExternals\<lparr>nodeEval := f\<rparr>) sampleOptions sampleCode
            (beforeQuery ''/app/src/main.ts'') (scssImportName ?imports) [withName sampleBox]
            (initialState sampleCode Map.empty) = (None, sampleAfterBox Map.empty)"
      by (simp add: sample_beforeQuery sample_box_step_any_eval)
    show "processNode (sampleExternals\<lparr>nodeEval := f\<rparr>) sampleOptions sampleCode
            (beforeQuery ''/app/src/main.ts'') (scssImportName ?imports) (withName sampleOuter)
            (sampleAfterBox Map.empty) = Inl e"
      using that by simp
  qed
  have n: "processNode (sampleExternals\<lparr>nodeEval := (\<lambda>code filename scope. Inr (JSNumber 5))\<rparr>)
             sampleOptions sampleCode (beforeQuery ''/app/src/main.ts'') None (withName sampleOuter)
             (sampleAfterBox Map.empty)
           = Inl (Error ''TypeError'' ''templateContents.split is not a function'')"
    by (subst sample_outer_step_fails[OF sample_outer_evaluation]) (simp add: processCssValue_def)
  have t: "processNode (sampleExternals\<lparr>nodeEval := (\<lambda>code filename scope.
                 Inl (Error ''ReferenceError'' ''box is not defined''))\<rparr>)
             sampleOptions sampleCode (beforeQuery ''/app/src/main.ts'') None (withName sampleOuter)
             (sampleAfterBox Map.empty)
           = Inl (Error ''ReferenceError'' ''box is not defined'')"
    by (subst sample_outer_step_fails[OF sample_outer_evaluation]) simp
  have i1: "\<not> jsIncludes ''templateContents.split is not a function''
          (BACKTICK # ''${box} span{color:blue;}'' @ [BACKTICK])"
    by (simp add: startsWith_def)
  have i2: "\<not> jsIncludes ''box is not defined'' (BACKTICK # ''${box} span{color:blue;}'' @ [BACKTICK])"
    by (simp add: startsWith_def)
  show ?thesis
    using a[OF n] a[OF t] sample_raw_outer i1 i2 by simp
qed

text \<open>
  C6, amended. Let a site with interpolations be reached in an eligible file with
  evaluation on, the sites before it compiled and the outer-scope source at hand. If its
  evaluation throws, the transform of the file fails with the error thrown, unchanged; if
  it yields a number, a boolean, undefined or null, the transform fails with a TypeError.
  In both cases no rewritten source is returned, and the registry is as the sites before
  left it.
\<close>

theorem C6_failed_evaluation_aborts_the_transform:
  assumes "\<not> jsIncludes (beforeQuery ident) ''node_modules''"
    and "testScriptExtension (beforeQuery ident)"
    and "parse ext code = Inr ast" and "findEcsstaticImports ast = Inr imports"
    and "findCssTaggedTemplateLiterals ast
           (filterBoolean [cssImportName imports, scssImportName imports]) = pre @ node # post"
    and "transform_loop ext options code (beforeQuery ident) (scssImportName imports) pre
           (initialState code registry) = (None, st)"
    and "evaluateExpressions options" and "quasi_expressions node \<noteq> 0"
    and "populateInlinedVars ext options (beforeQuery ident) node st = Inr inlined"
  shows "case processTemplateLiteral ext (rawTemplateOf code node) inlined (generatedClasses st) of
           Inl e \<Rightarrow> transform ext options registry code ident = (Inl e, cssList st)
         | Inr v \<Rightarrow>
             (case v of
                JSString s \<Rightarrow> True
              | JSNumber n \<Rightarrow>
                  \<exists>m. transform ext options registry code ident = (Inl (Error ''TypeError'' m), cssList st)
              | JSBoolean b \<Rightarrow>
                  \<exists>m. transform ext options registry code ident = (Inl (Error ''TypeError'' m), cssList st)
              | JSUndefined \<Rightarrow>
                  \<exists>m. transform ext options registry code ident = (Inl (Error ''TypeError'' m), cssList st)
              | JSNull \<Rightarrow>
                  \<exists>m. transform ext options registry code ident = (Inl (Error ''TypeError'' m), cssList st))"
proof (cases "processTemplateLiteral ext (rawTemplateOf code node) inlined (generatedClasses st)")
  case (Inl e)
  with assms(7,8) have "templateContentsOf ext (evaluateExpressions options) (quasi_expressions node)
           (rawTemplateOf code node) inlined (generatedClasses st) = Inl e"
    by (simp add: templateContentsOf_def)
  from processNode_evaluation_throws[OF assms(9) this]
  have "processNode ext options code (beforeQuery ident) (scssImportName imports) node st = Inl e" .
  from transform_aborts_with_the_loop[OF assms(1-6) this] Inl show ?thesis by simp
next
  case (Inr v)
  with assms(7,8) have t: "templateContentsOf ext (evaluateExpressions options) (quasi_expressions node)
           (rawTemplateOf code node) inlined (generatedClasses st) = Inr v"
    by (simp add: templateContentsOf_def)
  show ?thesis
  proof (cases "\<exists>s. v = JSString s")
    case True
    with Inr show ?thesis by auto
  next
    case False
    then have "\<And>s. v \<noteq> JSString s" by simp
    from processNode_evaluation_not_a_string[OF assms(9) t this]
    obtain m where "processNode ext options code (beforeQuery ident) (scssImportName imports) node st
        = Inl (Error ''TypeError'' m)"
      by blast
    from transform_aborts_with_the_loop[OF assms(1-6) this]
    have "\<exists>m. transform ext options registry code ident = (Inl (Error ''TypeError'' m), cssList st)"
      by blast
    with Inr show ?thesis by (cases v) simp_all
  qed
qed

theorem C6_failed_evaluation_aborts_the_transform_witness:
  "\<not> jsIncludes (beforeQuery ''/app/src/main.ts'') ''node_modules''
   \<and> testScriptExtension (beforeQuery ''/app/src/main.ts'')
   \<and> findCssTaggedTemplateLiterals sampleProgram (filterBoolean [Some ''css'', None])
       = [withName sampleBox] @ withName sampleOuter # []
   \<and> processTemplateLiteral
        (sampleExternals\<lparr>nodeEval := (\<lambda>code filename scope.
            Inl (Error ''ReferenceError'' ''box is not defined''))\<rparr>)
        (rawTemplateOf sampleCode (withName sampleOuter)) []
        (generatedClasses (sampleAfterBox Map.empty))
       = Inl (Error ''ReferenceError'' ''box is not defined'')
   \<and> transform
        (sampleExternals\<lparr>nodeEval := (\<lambda>code filename scope.
            Inl (Error ''ReferenceError'' ''box is not defined''))\<rparr>)
        sampleOptions Map.empty sampleCode ''/app/src/main.ts''
       = (Inl (Error ''ReferenceError'' ''box is not defined''),
          cssList (sampleAfterBox Map.empty))"
proof -
  let ?ext = "sampleExternals\<lparr>nodeEval := (\<lambda>code filename scope.
            Inl (Error ''ReferenceError'' ''box is not defined''))\<rparr>"
  let ?imports = "\<lparr>cssImportName = Some ''css'', scssImportName = None,
            statements = [\<lparr>span_start = 0, span_end = 38\<rparr>]\<rparr>"
  have h3: "parse ?ext sampleCode = Inr sampleProgram"
    by (simp add: sampleExternals_def)
  have h4: "findEcsstaticImports sampleProgram = Inr ?imports"
    by (rule sample_imports)
  have h5: "findCssTaggedTemplateLiterals sampleProgram
              (filterBoolean [cssImportName ?imports, scssImportName ?imports])
            = [withName sampleBox] @ withName sampleOuter # []"
    using sample_sites by simp
  have h6: "transform_loop ?ext sampleOptions sampleCode (beforeQuery ''/app/src/main.ts'')
              (scssImportName ?imports) [withName sampleBox] (initialState sampleCode Map.empty)
            = (None, sampleAfterBox Map.empty)"
    by (simp add: sample_beforeQuery sample_box_step_any_eval)
  have h7: "evaluateExpressions sampleOptions"
    by (simp add: evaluateExpressions_def sampleOptions_def)
  have h8: "quasi_expressions (withName sampleOuter) \<noteq> 0"
    by (simp add: withName_def sampleOuter_def)
  have h9: "populateInlinedVars ?ext sampleOptions (beforeQuery ''/app/src/main.ts'')
              (withName sampleOuter) (sampleAfterBox Map.empty) = Inr []"
    by (rule sample_outer_populate)
  have e: "processTemplateLiteral ?ext (rawTemplateOf sampleCode (withName sampleOuter)) []
        (generatedClasses (sampleAfterBox Map.empty))
       = Inl (Error ''ReferenceError'' ''box is not defined'')"
    by (simp add: sample_outer_evaluation)
  from C6_failed_evaluation_aborts_the_transform
         [OF sample_eligible(1) sample_eligible(2) h3 h4 h5 h6 h7 h8 h9]
  have "transform ?ext sampleOptions Map.empty sampleCode ''/app/src/main.ts''
       = (Inl (Error ''ReferenceError'' ''box is not defined''),
          cssList (sampleAfterBox Map.empty))"
    by (simp add: e)
  with sample_eligible sample_sites e show ?thesis by simp
qed

subsection \<open>C9: several aliases of one role\<close>
















subsection \<open>C3: which bindings a site's evaluation sees\<close>













end
